theory Spec2Isabelle
  imports Main
begin

section \<open>Notifications and the downstream Consumer Guard\<close>

text \<open>
  The three notifications of the push protocol: a value, a failure, a completion.
\<close>

datatype ('a, 'e) notification = OnNext 'a | OnError 'e | OnComplete

text \<open>
  Modelled from the spec: the downstream consumer (\<^verbatim>\<open>this.destination\<close>, a
  \<^verbatim>\<open>Subscriber\<close>) is code of the repository that is not among the sources. Spec 4.2:
  a Consumer Guard tracks a single "stopped" flag; before stopped, \<^verbatim>\<open>value\<close> is
  delivered, \<^verbatim>\<open>fail\<close>/\<^verbatim>\<open>complete\<close> mark the guard stopped and are delivered once;
  after stopped all three are no-ops. The guard records what it delivered, in order.
\<close>

record ('a, 'e) guard =
  stopped :: bool
  received :: "('a, 'e) notification list"

definition new_guard :: "('a, 'e) guard" where
  "new_guard = \<lparr>stopped = False, received = []\<rparr>"

definition guard_value :: "'a \<Rightarrow> ('a, 'e) guard \<Rightarrow> ('a, 'e) guard" where
  "guard_value v g = (if stopped g then g else g\<lparr>received := received g @ [OnNext v]\<rparr>)"

definition guard_fail :: "'e \<Rightarrow> ('a, 'e) guard \<Rightarrow> ('a, 'e) guard" where
  "guard_fail e g =
     (if stopped g then g else g\<lparr>stopped := True, received := received g @ [OnError e]\<rparr>)"

definition guard_complete :: "('a, 'e) guard \<Rightarrow> ('a, 'e) guard" where
  "guard_complete g =
     (if stopped g then g else g\<lparr>stopped := True, received := received g @ [OnComplete]\<rparr>)"


section \<open>ArgumentOutOfRangeError\<close>

text \<open>
  A JavaScript object as far as the constructor touches it: its prototype chain and the
  two properties \<^verbatim>\<open>name\<close> and \<^verbatim>\<open>message\<close>. A prototype chain ends in
  \<^verbatim>\<open>Object.prototype\<close>; \<^verbatim>\<open>Error.prototype\<close> is the object that makes an Error of
  whatever has it on its chain; \<^verbatim>\<open>Object.create(p)\<close> is a fresh object whose
  prototype is \<^verbatim>\<open>p\<close>.
\<close>

datatype prototype = Object_prototype | Error_prototype | Object_create prototype

record error_object =
  proto :: prototype
  name :: string
  message :: string

text \<open>
  \<^verbatim>\<open>x instanceof Error\<close>, given the prototype of \<^verbatim>\<open>x\<close>: whether \<^verbatim>\<open>Error.prototype\<close>
  is met on the way up the chain.
\<close>

fun instanceof_Error :: "prototype \<Rightarrow> bool" where
  "instanceof_Error Object_prototype = False"
| "instanceof_Error Error_prototype = True"
| "instanceof_Error (Object_create p) = instanceof_Error p"

text \<open>
  The \<^verbatim>\<open>prototype\<close> property that a declared function starts with: a fresh plain
  object.
\<close>

definition declared_function_prototype :: prototype where
  "declared_function_prototype = Object_create Object_prototype"

text \<open>
  \<^verbatim>\<open>ArgumentOutOfRangeErrorImpl.prototype = Object.create(Error.prototype)\<close>, which
  replaces the one the function was declared with.
\<close>

definition ArgumentOutOfRangeErrorImpl_prototype :: prototype where
  "ArgumentOutOfRangeErrorImpl_prototype = Object_create Error_prototype"

text \<open>
  The function body, with \<^verbatim>\<open>this\<close> passed and returned. \<^verbatim>\<open>Error.call(this)\<close> called
  as a plain function leaves \<^verbatim>\<open>this\<close> as it is.
\<close>

definition ArgumentOutOfRangeErrorImpl :: "error_object \<Rightarrow> error_object" where
  "ArgumentOutOfRangeErrorImpl this =
     (let this = this\<lparr>message := ''argument out of range.ts''\<rparr>;
          this = this\<lparr>name := ''ArgumentOutOfRangeError.ts''\<rparr>
      in this)"

text \<open>
  \<^verbatim>\<open>new ArgumentOutOfRangeError()\<close>: the constructor takes no argument; \<^verbatim>\<open>new\<close>
  allocates an object whose prototype is the function's \<^verbatim>\<open>prototype\<close> property, with
  \<^verbatim>\<open>name\<close> and \<^verbatim>\<open>message\<close> inherited from \<^verbatim>\<open>Error.prototype\<close> (\<^verbatim>\<open>"Error"\<close> and
  \<^verbatim>\<open>""\<close>), and runs the body on it.
\<close>

definition new_ArgumentOutOfRangeError :: error_object where
  "new_ArgumentOutOfRangeError =
     ArgumentOutOfRangeErrorImpl
       \<lparr>proto = ArgumentOutOfRangeErrorImpl_prototype, name = ''Error'', message = ''''\<rparr>"

text \<open>An ordinary user error, \<^verbatim>\<open>new Error(msg)\<close>.\<close>

definition new_Error :: "string \<Rightarrow> error_object" where
  "new_Error msg = \<lparr>proto = Error_prototype, name = ''Error'', message = msg\<rparr>"


section \<open>The every operator\<close>

text \<open>
  \<^verbatim>\<open>class EverySubscriber<T> extends Subscriber<T>\<close>. The fields \<^verbatim>\<open>isStopped\<close>,
  \<^verbatim>\<open>closed\<close> and \<^verbatim>\<open>destination\<close> are those of the base class; \<^verbatim>\<open>index\<close>,
  \<^verbatim>\<open>predicate\<close> and \<^verbatim>\<open>source\<close> are the subclass's own. The predicate is a user
  callback: it returns a boolean or throws, so its result is a sum with the thrown error
  on the left. \<^verbatim>\<open>thisArg\<close> only sets the receiver of the callback and is left out.
  \<^verbatim>\<open>index\<close> is a JavaScript number used as a counter from 0.
\<close>

record ('a, 'e, 's) every_subscriber =
  ev_isStopped :: bool
  ev_closed :: bool
  ev_destination :: "(bool, 'e) guard"
  index :: nat
  predicate :: "'a \<Rightarrow> nat \<Rightarrow> 's \<Rightarrow> 'e + bool"
  ev_source :: 's

definition new_EverySubscriber ::
  "(bool, 'e) guard \<Rightarrow> ('a \<Rightarrow> nat \<Rightarrow> 's \<Rightarrow> 'e + bool) \<Rightarrow> 's \<Rightarrow> ('a, 'e, 's) every_subscriber" where
  "new_EverySubscriber destination pred src =
     \<lparr>ev_isStopped = False, ev_closed = False, ev_destination = destination,
      index = 0, predicate = pred, ev_source = src\<rparr>"

text \<open>
  Modelled from the spec: \<^verbatim>\<open>Subscriber.unsubscribe\<close> is not among the sources. Spec 4.1
  and 5: closing a Disposal Node is idempotent and total; a closed guard is stopped.
\<close>

definition every_unsubscribe :: "('a, 'e, 's) every_subscriber \<Rightarrow> ('a, 'e, 's) every_subscriber" where
  "every_unsubscribe s =
     (if ev_closed s then s else s\<lparr>ev_isStopped := True, ev_closed := True\<rparr>)"

text \<open>
  Modelled from the spec: the calls \<^verbatim>\<open>this.destination.next\<close>, \<^verbatim>\<open>.error\<close> and
  \<^verbatim>\<open>.complete\<close> reach the downstream guard, whose code is not among the sources.
  Spec 4.2: a terminal notification marks the downstream guard stopped, is forwarded once
  and closes the Disposal Node it owns; spec 4.3 and 5: the upstream guard built by the
  transform hangs off that node, and closing a node closes every registered child at
  once. So a terminal notification accepted downstream closes this subscriber.
\<close>

definition every_destination_next ::
  "bool \<Rightarrow> ('a, 'e, 's) every_subscriber \<Rightarrow> ('a, 'e, 's) every_subscriber" where
  "every_destination_next v s = s\<lparr>ev_destination := guard_value v (ev_destination s)\<rparr>"

definition every_destination_error ::
  "'e \<Rightarrow> ('a, 'e, 's) every_subscriber \<Rightarrow> ('a, 'e, 's) every_subscriber" where
  "every_destination_error e s =
     (if stopped (ev_destination s) then s
      else every_unsubscribe (s\<lparr>ev_destination := guard_fail e (ev_destination s)\<rparr>))"

definition every_destination_complete ::
  "('a, 'e, 's) every_subscriber \<Rightarrow> ('a, 'e, 's) every_subscriber" where
  "every_destination_complete s =
     (if stopped (ev_destination s) then s
      else every_unsubscribe (s\<lparr>ev_destination := guard_complete (ev_destination s)\<rparr>))"

text \<open>\<^verbatim>\<open>EverySubscriber.notifyComplete\<close>\<close>

definition EverySubscriber_notifyComplete ::
  "bool \<Rightarrow> ('a, 'e, 's) every_subscriber \<Rightarrow> ('a, 'e, 's) every_subscriber" where
  "EverySubscriber_notifyComplete everyValueMatch s =
     every_destination_complete (every_destination_next everyValueMatch s)"

text \<open>
  \<^verbatim>\<open>EverySubscriber._next\<close>. \<^verbatim>\<open>this.index++\<close> is evaluated as an argument, so the
  counter has moved on whether the predicate returns or throws.
\<close>

definition EverySubscriber_next ::
  "'a \<Rightarrow> ('a, 'e, 's) every_subscriber \<Rightarrow> ('a, 'e, 's) every_subscriber" where
  "EverySubscriber_next v s =
     (let i = index s; s = s\<lparr>index := Suc i\<rparr> in
      case predicate s v i (ev_source s) of
        Inl err \<Rightarrow> every_destination_error err s
      | Inr result \<Rightarrow> if \<not> result then EverySubscriber_notifyComplete False s else s)"

text \<open>\<^verbatim>\<open>EverySubscriber._complete\<close>\<close>

definition EverySubscriber_complete ::
  "('a, 'e, 's) every_subscriber \<Rightarrow> ('a, 'e, 's) every_subscriber" where
  "EverySubscriber_complete s = EverySubscriber_notifyComplete True s"

text \<open>
  Modelled from the spec: the public \<^verbatim>\<open>next\<close>, \<^verbatim>\<open>error\<close> and \<^verbatim>\<open>complete\<close> of the
  base class \<^verbatim>\<open>Subscriber\<close> are not among the sources. Spec 4.2: before stopped,
  \<^verbatim>\<open>value\<close> runs the guard's own handler (\<^verbatim>\<open>_next\<close>); \<^verbatim>\<open>fail\<close> and \<^verbatim>\<open>complete\<close>
  mark the guard stopped and run the terminal handler; the base \<^verbatim>\<open>fail\<close> handler, which
  this class does not override, forwards the failure and closes the guard's own node.
  After stopped all three are no-ops.
\<close>

definition every_next ::
  "'a \<Rightarrow> ('a, 'e, 's) every_subscriber \<Rightarrow> ('a, 'e, 's) every_subscriber" where
  "every_next v s = (if ev_isStopped s then s else EverySubscriber_next v s)"

definition every_error ::
  "'e \<Rightarrow> ('a, 'e, 's) every_subscriber \<Rightarrow> ('a, 'e, 's) every_subscriber" where
  "every_error e s =
     (if ev_isStopped s then s
      else every_unsubscribe (every_destination_error e (s\<lparr>ev_isStopped := True\<rparr>)))"

definition every_complete ::
  "('a, 'e, 's) every_subscriber \<Rightarrow> ('a, 'e, 's) every_subscriber" where
  "every_complete s =
     (if ev_isStopped s then s else EverySubscriber_complete (s\<lparr>ev_isStopped := True\<rparr>))"

text \<open>
  Modelled from the spec: a source that emits a given list of values and then completes,
  all within the subscribe call (spec 5: delivery is synchronous, in order, and each
  \<^verbatim>\<open>value\<close> call returns before the next is made). \<open>emit\<close> is the source while it is
  still running; \<open>subscribe_of\<close> is the whole run.
\<close>

fun emit :: "'a list \<Rightarrow> ('a, 'e, 's) every_subscriber \<Rightarrow> ('a, 'e, 's) every_subscriber" where
  "emit [] s = s"
| "emit (v # vs) s = emit vs (every_next v s)"

definition subscribe_of ::
  "'a list \<Rightarrow> ('a, 'e, 's) every_subscriber \<Rightarrow> ('a, 'e, 's) every_subscriber" where
  "subscribe_of vs s = every_complete (emit vs s)"

text \<open>The predicates of the two scenarios, \<^verbatim>\<open>x => x < 5\<close> and \<^verbatim>\<open>x => x < 10\<close>.\<close>

definition value_below :: "int \<Rightarrow> int \<Rightarrow> nat \<Rightarrow> unit \<Rightarrow> 'e + bool" where
  "value_below bound x i src = Inr (x < bound)"

definition every_less_than :: "int \<Rightarrow> (int, 'e, unit) every_subscriber" where
  "every_less_than bound = new_EverySubscriber new_guard (value_below bound) ()"


section \<open>The retryWhen operator\<close>

subsection \<open>The objects the subscriber works with\<close>

text \<open>
  Modelled from the spec: \<^verbatim>\<open>Subject\<close> is not among the sources. Spec 4.5: the
  Multicast Hub is a Consumer Guard and a Stream with its own stopped/closed state. A
  hub is kept in a store and named by its position there, so that two references can be
  told to be the same hub; \<open>sj_pushed\<close> is every value the hub accepted, in order.
\<close>

record 'e subject =
  sj_closed :: bool
  sj_pushed :: "'e list"

text \<open>
  The notifier Stream that the user-supplied function returns, as far as it acts within
  one call stack: the store position of the channel it was built from, and what it emits,
  synchronously, in answer to a value pushed into that channel, given every value pushed
  so far (the latest last). What it emits later, from a timer say, reaches the subscriber
  as a separate call. A Stream that emits during its own subscribe call is outside this
  model.
\<close>

record 'e stream =
  input :: nat
  react :: "'e list \<Rightarrow> ('e, 'e) notification list"

text \<open>
  Modelled from the spec: the subscription that \<^verbatim>\<open>subscribeToResult\<close> returns (an
  \<^verbatim>\<open>InnerSubscriber\<close> attached to the notifier Stream) is not among the sources. It is
  a Consumer Guard with its own closed state, kept in a store like the hubs.
\<close>

record 'e inner_subscription =
  in_closed :: bool
  in_stream :: "'e stream"

text \<open>
  \<^verbatim>\<open>class RetryWhenSubscriber<T, R> extends OuterSubscriber<T, R>\<close>. \<open>isStopped\<close>,
  \<open>closed\<close> and \<open>destination\<close> are the base class's fields; \<open>unsubscribe_hook\<close> says
  whether the property \<^verbatim>\<open>_unsubscribe\<close> currently holds the method (\<open>True\<close>) or
  \<^verbatim>\<open>null\<close>; \<open>errors\<close>, \<open>retries\<close>, \<open>retriesSubscription\<close>, \<open>notifier\<close> and \<open>source\<close>
  are the subclass's fields, \<open>None\<close> for \<^verbatim>\<open>null\<close>. The notifier function returns a
  Stream or throws. The source is given by what its \<open>k\<close>-th subscription delivers within
  the subscribe call. \<open>subjects\<close> and \<open>inners\<close> are the two stores; \<open>attempts\<close> counts
  the calls of \<^verbatim>\<open>source.subscribe(this)\<close>, and \<open>sourceLive\<close> says whether a source
  subscription is attached to this subscriber and not torn down.
\<close>

record ('a, 'e) retry_when_subscriber =
  isStopped :: bool
  closed :: bool
  destination :: "('a, 'e) guard"
  unsubscribe_hook :: bool
  errors :: "nat option"
  retries :: "'e stream option"
  retriesSubscription :: "nat option"
  notifier :: "nat \<Rightarrow> 'e + 'e stream"
  source :: "nat \<Rightarrow> ('a, 'e) notification list"
  subjects :: "'e subject list"
  inners :: "'e inner_subscription list"
  attempts :: nat
  sourceLive :: bool

definition new_RetryWhenSubscriber ::
  "('a, 'e) guard \<Rightarrow> (nat \<Rightarrow> 'e + 'e stream) \<Rightarrow> (nat \<Rightarrow> ('a, 'e) notification list)
   \<Rightarrow> ('a, 'e) retry_when_subscriber" where
  "new_RetryWhenSubscriber dest notifier_fn src =
     \<lparr>isStopped = False, closed = False, destination = dest, unsubscribe_hook = True,
      errors = None, retries = None, retriesSubscription = None,
      notifier = notifier_fn, source = src, subjects = [], inners = [],
      attempts = 0, sourceLive = False\<rparr>"

text \<open>
  The calls that reach the subscriber, a hub or an inner subscription from outside a
  method body: the source's three notifications, a value pushed into hub \<open>sid\<close>, the
  notifier Stream's three notifications on inner subscription \<open>i\<close>, and
  \<^verbatim>\<open>source.subscribe(this)\<close>. A method returns the calls it makes as its last
  statements together with the state it leaves.
\<close>

datatype ('a, 'e) call =
    SourceNext 'a
  | SourceError 'e
  | SourceComplete
  | SubjectNext nat 'e
  | InnerNext nat 'e
  | InnerError nat 'e
  | InnerComplete nat
  | SourceSubscribe

text \<open>What can escape from a method: reading \<^verbatim>\<open>.next\<close> of \<^verbatim>\<open>null\<close>.\<close>

datatype js_exception = TypeError

text \<open>\<^verbatim>\<open>new Subject()\<close>\<close>

definition new_Subject ::
  "('a, 'e) retry_when_subscriber \<Rightarrow> nat \<times> ('a, 'e) retry_when_subscriber" where
  "new_Subject w =
     (length (subjects w), w\<lparr>subjects := subjects w @ [\<lparr>sj_closed = False, sj_pushed = []\<rparr>]\<rparr>)"

text \<open>
  Modelled from the spec: \<^verbatim>\<open>Subject.unsubscribe\<close> and \<^verbatim>\<open>Subscription.unsubscribe\<close>
  are not among the sources; each closes the object it is called on (spec 4.1).
\<close>

definition subject_unsubscribe ::
  "nat \<Rightarrow> ('a, 'e) retry_when_subscriber \<Rightarrow> ('a, 'e) retry_when_subscriber" where
  "subject_unsubscribe sid w =
     (if sid < length (subjects w)
      then w\<lparr>subjects := (subjects w)[sid := (subjects w ! sid)\<lparr>sj_closed := True\<rparr>]\<rparr>
      else w)"

definition subscription_unsubscribe ::
  "nat \<Rightarrow> ('a, 'e) retry_when_subscriber \<Rightarrow> ('a, 'e) retry_when_subscriber" where
  "subscription_unsubscribe i w =
     (if i < length (inners w)
      then w\<lparr>inners := (inners w)[i := (inners w ! i)\<lparr>in_closed := True\<rparr>]\<rparr>
      else w)"

text \<open>
  Modelled from the spec: \<^verbatim>\<open>subscribeToResult\<close> is not among the sources. Spec 4.6:
  the manager subscribes to the notifier Stream; the result is a fresh, open
  subscription.
\<close>

definition subscribeToResult ::
  "'e stream \<Rightarrow> ('a, 'e) retry_when_subscriber \<Rightarrow> nat \<times> ('a, 'e) retry_when_subscriber" where
  "subscribeToResult r w =
     (length (inners w), w\<lparr>inners := inners w @ [\<lparr>in_closed = False, in_stream = r\<rparr>]\<rparr>)"

subsection \<open>The methods of RetryWhenSubscriber\<close>

text \<open>\<^verbatim>\<open>RetryWhenSubscriber._unsubscribe\<close>\<close>

definition RetryWhenSubscriber_unsubscribe ::
  "('a, 'e) retry_when_subscriber \<Rightarrow> ('a, 'e) retry_when_subscriber" where
  "RetryWhenSubscriber_unsubscribe w =
     (let errors0 = errors w; retriesSubscription0 = retriesSubscription w;
          w = (case errors0 of
                 Some sid \<Rightarrow> (subject_unsubscribe sid w)\<lparr>errors := None\<rparr>
               | None \<Rightarrow> w);
          w = (case retriesSubscription0 of
                 Some i \<Rightarrow> (subscription_unsubscribe i w)\<lparr>retriesSubscription := None\<rparr>
               | None \<Rightarrow> w)
      in w\<lparr>retries := None\<rparr>)"

text \<open>
  Modelled from the spec: \<^verbatim>\<open>Subscriber.unsubscribe\<close> and
  \<^verbatim>\<open>Subscriber._unsubscribeAndRecycle\<close> are not among the sources. Spec 4.1, 4.2 and
  5: closing is idempotent; it marks the guard stopped and closed, runs the registered
  teardown (the \<^verbatim>\<open>_unsubscribe\<close> property, when it holds the method) and closes the
  children, here the source subscription. Spec 4.6: recycling tears the current source
  subscription down without destroying the guard, which is open and not stopped
  afterwards.
\<close>

definition unsubscribe :: "('a, 'e) retry_when_subscriber \<Rightarrow> ('a, 'e) retry_when_subscriber" where
  "unsubscribe w =
     (if closed w then w
      else let w = w\<lparr>isStopped := True, closed := True\<rparr>;
               w = (if unsubscribe_hook w then RetryWhenSubscriber_unsubscribe w else w)
           in w\<lparr>sourceLive := False\<rparr>)"

definition unsubscribeAndRecycle ::
  "('a, 'e) retry_when_subscriber \<Rightarrow> ('a, 'e) retry_when_subscriber" where
  "unsubscribeAndRecycle w = (unsubscribe w)\<lparr>closed := False, isStopped := False\<rparr>"

text \<open>
  Modelled from the spec: the downstream guard's code is not among the sources. As for
  the every operator: a terminal notification accepted downstream stops the downstream
  guard and closes the node this subscriber hangs off (spec 4.2, 4.3, 5).
\<close>

definition destination_next ::
  "'a \<Rightarrow> ('a, 'e) retry_when_subscriber \<Rightarrow> ('a, 'e) retry_when_subscriber" where
  "destination_next v w = w\<lparr>destination := guard_value v (destination w)\<rparr>"

definition destination_error ::
  "'e \<Rightarrow> ('a, 'e) retry_when_subscriber \<Rightarrow> ('a, 'e) retry_when_subscriber" where
  "destination_error e w =
     (if stopped (destination w) then w
      else unsubscribe (w\<lparr>destination := guard_fail e (destination w)\<rparr>))"

definition destination_complete ::
  "('a, 'e) retry_when_subscriber \<Rightarrow> ('a, 'e) retry_when_subscriber" where
  "destination_complete w =
     (if stopped (destination w) then w
      else unsubscribe (w\<lparr>destination := guard_complete (destination w)\<rparr>))"

text \<open>
  Modelled from the spec: \<^verbatim>\<open>Subscriber.next\<close>, \<^verbatim>\<open>Subscriber.error\<close> (reached as
  \<^verbatim>\<open>super.error\<close>) and \<^verbatim>\<open>Subscriber.complete\<close> are not among the sources. Spec 4.2:
  before stopped, \<^verbatim>\<open>value\<close> forwards to the destination; \<^verbatim>\<open>fail\<close> and
  \<^verbatim>\<open>complete\<close> mark the guard stopped, forward once and close the owned node; after
  stopped all three are no-ops.
\<close>

definition Subscriber_next ::
  "'a \<Rightarrow> ('a, 'e) retry_when_subscriber \<Rightarrow> ('a, 'e) retry_when_subscriber" where
  "Subscriber_next v w = (if isStopped w then w else destination_next v w)"

definition Subscriber_error ::
  "'e \<Rightarrow> ('a, 'e) retry_when_subscriber \<Rightarrow> ('a, 'e) retry_when_subscriber" where
  "Subscriber_error e w =
     (if isStopped w then w
      else unsubscribe (destination_error e (w\<lparr>isStopped := True\<rparr>)))"

definition Subscriber_complete ::
  "('a, 'e) retry_when_subscriber \<Rightarrow> ('a, 'e) retry_when_subscriber" where
  "Subscriber_complete w =
     (if isStopped w then w
      else unsubscribe (destination_complete (w\<lparr>isStopped := True\<rparr>)))"

text \<open>
  \<^verbatim>\<open>RetryWhenSubscriber.error\<close>. The two branches of \<^verbatim>\<open>if (!retries)\<close> leave the
  three locals and the state; \<^verbatim>\<open>return super.error(e)\<close> leaves the method at once.
  The last statement, \<^verbatim>\<open>errors!.next(err)\<close>, is returned as the call it makes; on
  \<^verbatim>\<open>null\<close> it throws.
\<close>

definition RetryWhenSubscriber_error ::
  "'e \<Rightarrow> ('a, 'e) retry_when_subscriber
   \<Rightarrow> js_exception + ('a, 'e) retry_when_subscriber \<times> ('a, 'e) call list" where
  "RetryWhenSubscriber_error err w =
     (if \<not> isStopped w then
        (let errors0 = errors w; retries0 = retries w;
             retriesSubscription0 = retriesSubscription w
         in (case (if retries0 = None then
                     (let (errors1, w) = new_Subject w
                      in (case notifier w errors1 of
                            Inl e \<Rightarrow> Inl (Subscriber_error e w)
                          | Inr retries1 \<Rightarrow>
                              (let (retriesSubscription1, w) = subscribeToResult retries1 w
                               in Inr (Some errors1, Some retries1,
                                       Some retriesSubscription1, w))))
                   else Inr (errors0, retries0, retriesSubscription0,
                             w\<lparr>errors := None, retriesSubscription := None\<rparr>))
             of Inl w \<Rightarrow> Inr (w, [])
              | Inr (errors1, retries1, retriesSubscription1, w) \<Rightarrow>
                  (let w = unsubscribeAndRecycle w;
                       w = w\<lparr>errors := errors1, retries := retries1,
                             retriesSubscription := retriesSubscription1\<rparr>
                   in (case errors1 of
                         None \<Rightarrow> Inl TypeError
                       | Some sid \<Rightarrow> Inr (w, [SubjectNext sid err])))))
      else Inr (w, []))"

text \<open>
  \<^verbatim>\<open>RetryWhenSubscriber.notifyNext\<close>. None of its five parameters is used; the inner
  value is kept as the one argument. The last statement, \<^verbatim>\<open>this.source.subscribe(this)\<close>,
  is a plain method call made from within this method.
\<close>

definition RetryWhenSubscriber_notifyNext ::
  "'e \<Rightarrow> ('a, 'e) retry_when_subscriber
   \<Rightarrow> ('a, 'e) retry_when_subscriber \<times> ('a, 'e) call list" where
  "RetryWhenSubscriber_notifyNext innerValue w =
     (let saved = unsubscribe_hook w;
          w = w\<lparr>unsubscribe_hook := False\<rparr>;
          w = unsubscribeAndRecycle w;
          w = w\<lparr>unsubscribe_hook := saved\<rparr>
      in (w, [SourceSubscribe]))"

text \<open>
  Modelled from the spec: \<^verbatim>\<open>OuterSubscriber.notifyError\<close> and
  \<^verbatim>\<open>OuterSubscriber.notifyComplete\<close>, which this class inherits, are not among the
  sources. Spec 4.6: on notifier completion or failure the corresponding terminal
  notification is forwarded downstream.
\<close>

definition OuterSubscriber_notifyError ::
  "'e \<Rightarrow> ('a, 'e) retry_when_subscriber \<Rightarrow> ('a, 'e) retry_when_subscriber" where
  "OuterSubscriber_notifyError e w = destination_error e w"

definition OuterSubscriber_notifyComplete ::
  "('a, 'e) retry_when_subscriber \<Rightarrow> ('a, 'e) retry_when_subscriber" where
  "OuterSubscriber_notifyComplete w = destination_complete w"


subsection \<open>The surroundings: hub, inner subscription, source\<close>

text \<open>
  Modelled from the spec: \<^verbatim>\<open>InnerSubscriber\<close> is not among the sources. It is the
  Consumer Guard of the notifier subscription (spec 4.2, 4.6): while open it hands a
  notifier value to \<^verbatim>\<open>notifyNext\<close>, a notifier failure to \<^verbatim>\<open>notifyError\<close> and a
  notifier completion to \<^verbatim>\<open>notifyComplete\<close> of the outer subscriber, and a terminal
  notification closes it; once closed it ignores every call.
\<close>

definition inner_open :: "nat \<Rightarrow> ('a, 'e) retry_when_subscriber \<Rightarrow> bool" where
  "inner_open i w = (i < length (inners w) \<and> \<not> in_closed (inners w ! i))"

definition inner_next ::
  "nat \<Rightarrow> 'e \<Rightarrow> ('a, 'e) retry_when_subscriber
   \<Rightarrow> ('a, 'e) retry_when_subscriber \<times> ('a, 'e) call list" where
  "inner_next i v w = (if inner_open i w then RetryWhenSubscriber_notifyNext v w else (w, []))"

definition inner_error ::
  "nat \<Rightarrow> 'e \<Rightarrow> ('a, 'e) retry_when_subscriber \<Rightarrow> ('a, 'e) retry_when_subscriber" where
  "inner_error i e w =
     (if inner_open i w then subscription_unsubscribe i (OuterSubscriber_notifyError e w) else w)"

definition inner_complete ::
  "nat \<Rightarrow> ('a, 'e) retry_when_subscriber \<Rightarrow> ('a, 'e) retry_when_subscriber" where
  "inner_complete i w =
     (if inner_open i w then subscription_unsubscribe i (OuterSubscriber_notifyComplete w) else w)"

fun inner_call :: "nat \<Rightarrow> ('e, 'e) notification \<Rightarrow> ('a, 'e) call" where
  "inner_call i (OnNext v) = InnerNext i v"
| "inner_call i (OnError e) = InnerError i e"
| "inner_call i OnComplete = InnerComplete i"

fun source_call :: "('a, 'e) notification \<Rightarrow> ('a, 'e) call" where
  "source_call (OnNext v) = SourceNext v"
| "source_call (OnError e) = SourceError e"
| "source_call OnComplete = SourceComplete"

text \<open>
  Modelled from the spec: \<^verbatim>\<open>Subject.next\<close> is not among the sources. Spec 4.5 and
  4.2: a hub that is not closed accepts the value and delivers it, within the same call,
  to the guards registered with it, in subscription order; a closed hub ignores the
  call. The guards registered with a hub are the open inner subscriptions whose Stream
  was built from it; what each one gets is what its Stream emits in answer.
\<close>

definition subject_next ::
  "nat \<Rightarrow> 'e \<Rightarrow> ('a, 'e) retry_when_subscriber
   \<Rightarrow> ('a, 'e) retry_when_subscriber \<times> ('a, 'e) call list" where
  "subject_next sid e w =
     (if sid < length (subjects w) \<and> \<not> sj_closed (subjects w ! sid) then
        (let sj = subjects w ! sid;
             pushed = sj_pushed sj @ [e];
             w = w\<lparr>subjects := (subjects w)[sid := sj\<lparr>sj_pushed := pushed\<rparr>]\<rparr>
         in (w, concat (map (\<lambda>i. if inner_open i w \<and> input (in_stream (inners w ! i)) = sid
                                 then map (inner_call i) (react (in_stream (inners w ! i)) pushed)
                                 else [])
                            [0 ..< length (inners w)])))
      else (w, []))"

text \<open>
  Modelled from the spec: \<^verbatim>\<open>Observable.subscribe\<close> is not among the sources. Spec 4.3
  and 5: subscribing starts an independent execution of the source, whose teardown is
  attached to the subscriber; what the source delivers within the call reaches the
  subscriber from inside it, in order.
\<close>

definition source_subscribe ::
  "('a, 'e) retry_when_subscriber \<Rightarrow> ('a, 'e) retry_when_subscriber \<times> ('a, 'e) call list" where
  "source_subscribe w =
     (let k = attempts w
      in (w\<lparr>attempts := Suc k, sourceLive := True\<rparr>, map source_call (source w k)))"

subsection \<open>Running calls on a call stack\<close>

text \<open>
  One call: the method it reaches, run on the state. The source's failure reaches the
  overriding \<^verbatim>\<open>RetryWhenSubscriber.error\<close>; its values and its completion reach the
  inherited methods.
\<close>

fun step ::
  "('a, 'e) call \<Rightarrow> ('a, 'e) retry_when_subscriber
   \<Rightarrow> js_exception + ('a, 'e) retry_when_subscriber \<times> ('a, 'e) call list" where
  "step (SourceNext v) w = Inr (Subscriber_next v w, [])"
| "step (SourceError e) w = RetryWhenSubscriber_error e w"
| "step SourceComplete w = Inr (Subscriber_complete w, [])"
| "step (SubjectNext sid e) w = Inr (subject_next sid e w)"
| "step (InnerNext i v) w = Inr (inner_next i v w)"
| "step (InnerError i e) w = Inr (inner_error i e w, [])"
| "step (InnerComplete i) w = Inr (inner_complete i w, [])"
| "step SourceSubscribe w = Inr (source_subscribe w)"

text \<open>
  The calls a method makes are plain method calls, so they run inside the frame of the
  method that makes them: a call made by a method running at depth \<open>d\<close> runs at depth
  \<open>d + 1\<close>, and the caller's remaining calls wait until it has returned. \<open>run\<close> carries
  the pending calls, each with the depth of its frame, the state, and the greatest depth
  reached so far. A cascade of calls need not end; \<open>run\<close> takes fuel, one unit per call,
  and \<open>None\<close> is running out of it. An exception unwinds the whole stack.
\<close>

fun run ::
  "nat \<Rightarrow> (nat \<times> ('a, 'e) call) list \<Rightarrow> ('a, 'e) retry_when_subscriber \<times> nat
   \<Rightarrow> (js_exception + ('a, 'e) retry_when_subscriber \<times> nat) option" where
  "run fuel [] (w, m) = Some (Inr (w, m))"
| "run 0 (dc # pending) (w, m) = None"
| "run (Suc fuel) ((d, c) # pending) (w, m) =
     (case step c w of
        Inl x \<Rightarrow> Some (Inl x)
      | Inr (w', cs) \<Rightarrow> run fuel (map (Pair (Suc d)) cs @ pending) (w', max m d))"

text \<open>
  Subscribing to \<^verbatim>\<open>source.pipe(retryWhen(notifier))\<close>: the operator builds the
  subscriber and subscribes it to the source, at depth \<open>0\<close>.
\<close>

definition retryWhen_subscribe ::
  "nat \<Rightarrow> (nat \<Rightarrow> 'e + 'e stream) \<Rightarrow> (nat \<Rightarrow> ('a, 'e) notification list)
   \<Rightarrow> (js_exception + ('a, 'e) retry_when_subscriber \<times> nat) option" where
  "retryWhen_subscribe fuel notifier_fn src =
     run fuel [(0, SourceSubscribe)] (new_RetryWhenSubscriber new_guard notifier_fn src, 0)"

text \<open>
  A source that fails within the subscribe call on each of its first \<open>n\<close> subscriptions
  and completes at once on the next, and the notifier \<^verbatim>\<open>errors => errors\<close>, which
  emits every error it is given at once.
\<close>

definition failing_source :: "nat \<Rightarrow> 'e \<Rightarrow> nat \<Rightarrow> ('a, 'e) notification list" where
  "failing_source n e k = (if k < n then [OnError e] else [OnComplete])"

definition echo_stream :: "nat \<Rightarrow> 'e stream" where
  "echo_stream sid = \<lparr>input = sid, react = (\<lambda>pushed. [OnNext (last pushed)])\<rparr>"

definition echo_notifier :: "nat \<Rightarrow> 'e + 'e stream" where
  "echo_notifier sid = Inr (echo_stream sid)"


subsection \<open>The states of the retry state machine\<close>

text \<open>
  The code keeps no state variable; the three states of spec 4.6 are read off the
  fields. The subscriber is in operation when neither it nor the downstream guard has
  stopped and its \<^verbatim>\<open>_unsubscribe\<close> property holds the method. The notifier is subscribed
  when the three fields name a hub, a Stream and an inner subscription that are still
  open. \<open>ATTEMPT\<close>: in operation with a source subscription attached.
  \<open>AWAITING_NOTIFIER\<close>: in operation, the source subscription torn down, the notifier
  subscribed. \<open>TERMINATED\<close>: stopped and closed, with everything released.
\<close>

definition in_operation :: "('a, 'e) retry_when_subscriber \<Rightarrow> bool" where
  "in_operation w =
     (\<not> isStopped w \<and> \<not> closed w \<and> unsubscribe_hook w \<and> \<not> stopped (destination w))"

definition notifier_subscribed ::
  "nat \<Rightarrow> 'e stream \<Rightarrow> nat \<Rightarrow> ('a, 'e) retry_when_subscriber \<Rightarrow> bool" where
  "notifier_subscribed sid r i w =
     (errors w = Some sid \<and> retries w = Some r \<and> retriesSubscription w = Some i
      \<and> sid < length (subjects w) \<and> \<not> sj_closed (subjects w ! sid) \<and> inner_open i w)"

definition ATTEMPT :: "('a, 'e) retry_when_subscriber \<Rightarrow> bool" where
  "ATTEMPT w = (in_operation w \<and> sourceLive w)"

definition AWAITING_NOTIFIER ::
  "nat \<Rightarrow> 'e stream \<Rightarrow> nat \<Rightarrow> ('a, 'e) retry_when_subscriber \<Rightarrow> bool" where
  "AWAITING_NOTIFIER sid r i w =
     (in_operation w \<and> \<not> sourceLive w \<and> notifier_subscribed sid r i w)"

definition TERMINATED :: "('a, 'e) retry_when_subscriber \<Rightarrow> bool" where
  "TERMINATED w =
     (isStopped w \<and> closed w \<and> \<not> sourceLive w
      \<and> errors w = None \<and> retries w = None \<and> retriesSubscription w = None)"


subsection \<open>Terminal notifications\<close>

fun terminal :: "('a, 'e) notification \<Rightarrow> bool" where
  "terminal (OnNext v) = False"
| "terminal (OnError e) = True"
| "terminal OnComplete = True"

text \<open>One call on a guard, named by the notification it carries.\<close>

fun guard_call :: "('a, 'e) notification \<Rightarrow> ('a, 'e) guard \<Rightarrow> ('a, 'e) guard" where
  "guard_call (OnNext v) g = guard_value v g"
| "guard_call (OnError e) g = guard_fail e g"
| "guard_call OnComplete g = guard_complete g"

text \<open>
  What a guard has delivered holds no terminal notification while it is not stopped, and
  exactly one once it is.
\<close>

definition one_terminal :: "('a, 'e) guard \<Rightarrow> bool" where
  "one_terminal g =
     (if stopped g then length (filter terminal (received g)) = 1
      else filter terminal (received g) = [])"

subsection \<open>The states of a run of consecutive retry cycles\<close>

text \<open>
  The subscriber of \<open>retryWhen_subscribe fuel echo_notifier (failing_source n e)\<close>
  between two cycles: \<open>k\<close> errors pushed so far, \<open>a\<close> subscriptions made, the source
  subscription attached or not; and at the end, after the source has completed.
\<close>

definition cycle_state :: "nat \<Rightarrow> 'e \<Rightarrow> nat \<Rightarrow> nat \<Rightarrow> bool \<Rightarrow> ('a, 'e) retry_when_subscriber" where
  "cycle_state n e k a l =
     \<lparr>isStopped = False, closed = False, destination = new_guard, unsubscribe_hook = True,
      errors = Some 0, retries = Some (echo_stream 0), retriesSubscription = Some 0,
      notifier = echo_notifier, source = failing_source n e,
      subjects = [\<lparr>sj_closed = False, sj_pushed = replicate k e\<rparr>],
      inners = [\<lparr>in_closed = False, in_stream = echo_stream 0\<rparr>],
      attempts = a, sourceLive = l\<rparr>"

definition final_state :: "nat \<Rightarrow> 'e \<Rightarrow> ('a, 'e) retry_when_subscriber" where
  "final_state n e =
     \<lparr>isStopped = True, closed = True,
      destination = \<lparr>stopped = True, received = [OnComplete]\<rparr>, unsubscribe_hook = True,
      errors = None, retries = None, retriesSubscription = None,
      notifier = echo_notifier, source = failing_source n e,
      subjects = (if n = 0 then [] else [\<lparr>sj_closed = True, sj_pushed = replicate n e\<rparr>]),
      inners = (if n = 0 then [] else [\<lparr>in_closed = True, in_stream = echo_stream 0\<rparr>]),
      attempts = Suc n, sourceLive = False\<rparr>"

text \<open>
  The greatest depth reached when the source fails \<open>n\<close> times in a row within the
  subscribe call and the notifier answers each failure at once. \<open>run\<close> puts no limit
  on the depth; an engine whose stack is limited gives up once the depth passes its
  limit.
\<close>

definition resubscription_depth :: "nat \<Rightarrow> nat" where
  "resubscription_depth n =
     (case retryWhen_subscribe (4 * n + 2) echo_notifier
             (failing_source n () :: nat \<Rightarrow> (unit, unit) notification list) of
        Some (Inr (w, m)) \<Rightarrow> m
      | _ \<Rightarrow> 0)"

text \<open>
  A subscriber whose notifier function throws, and one that is awaiting its notifier
  after a first failure.
\<close>

definition throwing_subscriber :: "(int, string) retry_when_subscriber" where
  "throwing_subscriber =
     new_RetryWhenSubscriber new_guard (\<lambda>sid. Inl ''thrown by notifier'') (\<lambda>k. [])"

definition awaiting_subscriber :: "(int, string) retry_when_subscriber" where
  "awaiting_subscriber = cycle_state 1 ''boom'' 1 1 False"

text \<open>An every subscriber over a predicate that throws on the value 3.\<close>

definition throws_on_3 :: "int \<Rightarrow> nat \<Rightarrow> unit \<Rightarrow> string + bool" where
  "throws_on_3 x i src = (if x = 3 then Inl ''bad value'' else Inr True)"

section \<open>Unfolding rules\<close>

lemmas guard_defs = new_guard_def guard_value_def guard_fail_def guard_complete_def

lemmas every_defs = every_less_than_def new_EverySubscriber_def value_below_def
  subscribe_of_def every_next_def every_error_def every_complete_def EverySubscriber_next_def
  EverySubscriber_complete_def EverySubscriber_notifyComplete_def every_destination_next_def
  every_destination_complete_def every_destination_error_def every_unsubscribe_def

lemmas retry_defs = RetryWhenSubscriber_error_def RetryWhenSubscriber_notifyNext_def
  RetryWhenSubscriber_unsubscribe_def unsubscribe_def unsubscribeAndRecycle_def
  new_Subject_def subscribeToResult_def subject_unsubscribe_def subscription_unsubscribe_def
  destination_next_def destination_error_def destination_complete_def
  Subscriber_next_def Subscriber_error_def Subscriber_complete_def
  OuterSubscriber_notifyError_def OuterSubscriber_notifyComplete_def

lemmas state_defs = in_operation_def notifier_subscribed_def ATTEMPT_def AWAITING_NOTIFIER_def
  TERMINATED_def inner_open_def

lemmas example_defs = cycle_state_def final_state_def awaiting_subscriber_def
  throwing_subscriber_def new_RetryWhenSubscriber_def echo_stream_def echo_notifier_def
  failing_source_def


section \<open>Properties of ArgumentOutOfRangeError\<close>

text \<open>
  C8: the query-error is constructed with no arguments and carries nothing beyond its
  kind: whatever object the constructor body runs on, the resulting name and message are
  the same two constants and the prototype is left as it was; the instance made by
  \<^verbatim>\<open>new\<close> is an Error, because the prototype assigned to the constructor has
  \<^verbatim>\<open>Error.prototype\<close> on its chain, which the prototype the function was declared with
  has not; and its name differs from the name of every ordinary \<^verbatim>\<open>Error\<close>, so a
  handler can tell the two apart by kind.
\<close>

theorem ArgumentOutOfRangeError_fixed:
  "name (ArgumentOutOfRangeErrorImpl this) = ''ArgumentOutOfRangeError.ts''
   \<and> message (ArgumentOutOfRangeErrorImpl this) = ''argument out of range.ts''
   \<and> proto (ArgumentOutOfRangeErrorImpl this) = proto this
   \<and> proto new_ArgumentOutOfRangeError = Object_create Error_prototype
   \<and> instanceof_Error (proto new_ArgumentOutOfRangeError)
   \<and> \<not> instanceof_Error declared_function_prototype
   \<and> name new_ArgumentOutOfRangeError \<noteq> name (new_Error msg)"
  by (simp add: ArgumentOutOfRangeErrorImpl_def new_ArgumentOutOfRangeError_def
      ArgumentOutOfRangeErrorImpl_prototype_def declared_function_prototype_def new_Error_def)


section \<open>Properties of the every operator\<close>

text \<open>
  While every value passes the predicate and the predicate does not throw, the
  subscriber stays open, counts the values and delivers nothing downstream.
\<close>

lemma emit_all_pass:
  assumes "\<not> ev_isStopped s"
    and "\<And>j. j < length vs \<Longrightarrow> predicate s (vs ! j) (index s + j) (ev_source s) = Inr True"
  shows "emit vs s = s\<lparr>index := index s + length vs\<rparr>"
  using assms
proof (induction vs arbitrary: s)
  case Nil
  then show ?case by simp
next
  case (Cons v vs)
  have head: "predicate s v (index s) (ev_source s) = Inr True"
    using Cons.prems(2)[of 0] by simp
  have step: "every_next v s = s\<lparr>index := Suc (index s)\<rparr>"
    using Cons.prems(1) head by (simp add: every_next_def EverySubscriber_next_def)
  have rest: "\<And>j. j < length vs \<Longrightarrow>
      predicate (s\<lparr>index := Suc (index s)\<rparr>) (vs ! j) (index (s\<lparr>index := Suc (index s)\<rparr>) + j)
        (ev_source (s\<lparr>index := Suc (index s)\<rparr>)) = Inr True"
    using Cons.prems(2)[of "Suc j" for j] by simp
  have "emit vs (s\<lparr>index := Suc (index s)\<rparr>)
      = (s\<lparr>index := Suc (index s)\<rparr>)\<lparr>index := index (s\<lparr>index := Suc (index s)\<rparr>) + length vs\<rparr>"
    using Cons.IH[of "s\<lparr>index := Suc (index s)\<rparr>"] Cons.prems(1) rest by simp
  then show ?case by (simp add: step)
qed

text \<open>
  C5: source \<open>1,2,3,4,5,6\<close>, predicate "value < 5". Downstream receives exactly
  \<open>false\<close> and then one completion. Nothing is delivered and the subscriber is open
  after \<open>1,2,3,4\<close>; the subscriber is closed and stopped as soon as \<open>5\<close> has been
  processed; the value \<open>6\<close> then leaves it unchanged, and the predicate has run five
  times when the source is done.
\<close>

theorem every_short_circuit:
  "received (ev_destination
      (subscribe_of [1, 2, 3, 4, 5, 6] (every_less_than 5 :: (int, 'e, unit) every_subscriber)))
     = [OnNext False, OnComplete]
   \<and> received (ev_destination
        (emit [1, 2, 3, 4] (every_less_than 5 :: (int, 'e, unit) every_subscriber))) = []
   \<and> ev_closed (emit [1, 2, 3, 4] (every_less_than 5 :: (int, 'e, unit) every_subscriber)) = False
   \<and> ev_closed (emit [1, 2, 3, 4, 5] (every_less_than 5 :: (int, 'e, unit) every_subscriber)) = True
   \<and> ev_isStopped (emit [1, 2, 3, 4, 5] (every_less_than 5 :: (int, 'e, unit) every_subscriber)) = True
   \<and> index (emit [1, 2, 3, 4, 5] (every_less_than 5 :: (int, 'e, unit) every_subscriber)) = 5
   \<and> every_next 6 (emit [1, 2, 3, 4, 5] (every_less_than 5 :: (int, 'e, unit) every_subscriber))
       = emit [1, 2, 3, 4, 5] (every_less_than 5)
   \<and> index (subscribe_of [1, 2, 3, 4, 5, 6]
        (every_less_than 5 :: (int, 'e, unit) every_subscriber)) = 5"
  by (simp add: every_defs guard_defs)

text \<open>
  C9: source \<open>1,2,3\<close>, predicate "value < 10". Nothing is delivered downstream after
  no value, one, two or all three values, and the subscriber is still running then; once
  the source completes, downstream receives exactly \<open>true\<close> and then completion.
\<close>

theorem every_all_pass:
  "received (ev_destination
      (emit [] (every_less_than 10 :: (int, 'e, unit) every_subscriber))) = []
   \<and> received (ev_destination
        (emit [1] (every_less_than 10 :: (int, 'e, unit) every_subscriber))) = []
   \<and> received (ev_destination
        (emit [1, 2] (every_less_than 10 :: (int, 'e, unit) every_subscriber))) = []
   \<and> received (ev_destination
        (emit [1, 2, 3] (every_less_than 10 :: (int, 'e, unit) every_subscriber))) = []
   \<and> ev_isStopped (emit [1, 2, 3] (every_less_than 10 :: (int, 'e, unit) every_subscriber)) = False
   \<and> received (ev_destination
        (subscribe_of [1, 2, 3] (every_less_than 10 :: (int, 'e, unit) every_subscriber)))
       = [OnNext True, OnComplete]"
  by (simp add: every_defs guard_defs)


section \<open>Properties of the retryWhen operator\<close>

subsection \<open>Source failure\<close>

text \<open>
  C1, as amended: on a source failure while the subscriber is not stopped, and unless
  the notifier function has to be invoked and throws, the error is pushed into the
  notifier-input channel. If no notifier exists yet (the three fields are null) and the
  notifier function returns a Stream for the fresh hub, the hub is created, the Stream is
  subscribed, the three fields name them, and the call made is the push of the error
  into the fresh hub, which then holds exactly that error. If the notifier is subscribed
  from a prior cycle, hub, Stream and subscription are kept as they are, no hub or
  subscription is created, and the call made is the push of the error into the same hub,
  which then holds it after the earlier ones.
\<close>

theorem retry_error_pushes:
  "(\<not> isStopped w \<and> errors w = None \<and> retries w = None \<and> retriesSubscription w = None
      \<and> notifier w (length (subjects w)) = Inr r \<longrightarrow>
      (\<exists>w'. step (SourceError err) w = Inr (w', [SubjectNext (length (subjects w)) err])
          \<and> subjects w' = subjects w @ [\<lparr>sj_closed = False, sj_pushed = []\<rparr>]
          \<and> inners w' = inners w @ [\<lparr>in_closed = False, in_stream = r\<rparr>]
          \<and> notifier_subscribed (length (subjects w)) r (length (inners w)) w'
          \<and> sj_pushed (subjects (fst (subject_next (length (subjects w)) err w'))
                ! length (subjects w)) = [err]))
   \<and> (\<not> isStopped w \<and> notifier_subscribed sid r i w \<longrightarrow>
      (\<exists>w'. step (SourceError err) w = Inr (w', [SubjectNext sid err])
          \<and> subjects w' = subjects w \<and> inners w' = inners w
          \<and> notifier_subscribed sid r i w'
          \<and> sj_pushed (subjects (fst (subject_next sid err w')) ! sid)
              = sj_pushed (subjects w ! sid) @ [err]))"
  by (auto simp: retry_defs state_defs subject_next_def Let_def nth_append)

theorem retry_error_pushes_witness:
  "\<not> isStopped (new_RetryWhenSubscriber new_guard echo_notifier (\<lambda>k. []) :: (int, string) retry_when_subscriber)
   \<and> echo_notifier 0 = (Inr (echo_stream 0) :: string + string stream)
   \<and> (\<exists>w'. step (SourceError ''boom'')
              (new_RetryWhenSubscriber new_guard echo_notifier (\<lambda>k. []) :: (int, string) retry_when_subscriber)
            = Inr (w', [SubjectNext 0 ''boom''])
          \<and> notifier_subscribed 0 (echo_stream 0) 0 w')
   \<and> \<not> isStopped awaiting_subscriber
   \<and> notifier_subscribed 0 (echo_stream 0) 0 awaiting_subscriber
   \<and> (\<exists>w'. step (SourceError ''again'') awaiting_subscriber = Inr (w', [SubjectNext 0 ''again''])
          \<and> sj_pushed (subjects (fst (subject_next 0 ''again'' w')) ! 0) = [''boom'', ''again''])"
proof -
  let ?w0 = "new_RetryWhenSubscriber new_guard echo_notifier (\<lambda>k. []) :: (int, string) retry_when_subscriber"
  have h0: "\<not> isStopped ?w0 \<and> errors ?w0 = None \<and> retries ?w0 = None
      \<and> retriesSubscription ?w0 = None \<and> notifier ?w0 (length (subjects ?w0)) = Inr (echo_stream 0)"
    by (simp add: new_RetryWhenSubscriber_def echo_notifier_def)
  have h1: "\<not> isStopped awaiting_subscriber \<and> notifier_subscribed 0 (echo_stream 0) 0 awaiting_subscriber"
    by (simp add: awaiting_subscriber_def cycle_state_def state_defs)
  have len0: "length (subjects ?w0) = 0" "length (inners ?w0) = 0"
    by (simp_all add: new_RetryWhenSubscriber_def)
  have pushed1: "sj_pushed (subjects awaiting_subscriber ! 0) = [''boom'']"
    by (simp add: awaiting_subscriber_def cycle_state_def)
  from retry_error_pushes[where w = ?w0 and r = "echo_stream 0" and err = "''boom''"] h0 len0
  have c0: "\<exists>w'. step (SourceError ''boom'') ?w0 = Inr (w', [SubjectNext 0 ''boom''])
      \<and> notifier_subscribed 0 (echo_stream 0) 0 w'"
    by auto
  from retry_error_pushes[where w = awaiting_subscriber and err = "''again''" and sid = 0
      and r = "echo_stream 0" and i = 0] h1 pushed1
  have c1: "\<exists>w'. step (SourceError ''again'') awaiting_subscriber = Inr (w', [SubjectNext 0 ''again''])
      \<and> sj_pushed (subjects (fst (subject_next 0 ''again'' w')) ! 0) = [''boom'', ''again'']"
    by auto
  show ?thesis using h0 h1 c0 c1 by (simp add: echo_notifier_def)
qed

text \<open>
  The claim as first stated has the error pushed on every source failure while not
  stopped. With a notifier function that throws, the first failure makes no push: no call
  is returned, the fresh hub holds nothing, and the thrown error is what downstream gets.
\<close>

theorem retry_error_pushes_counterexample:
  "\<not> isStopped throwing_subscriber
   \<and> step (SourceError ''boom'') throwing_subscriber
     = Inr (throwing_subscriber
              \<lparr>isStopped := True, closed := True,
               destination := \<lparr>stopped = True, received = [OnError ''thrown by notifier'']\<rparr>,
               subjects := [\<lparr>sj_closed = False, sj_pushed = []\<rparr>]\<rparr>, [])"
  by (simp add: throwing_subscriber_def new_RetryWhenSubscriber_def retry_defs guard_defs)

subsection \<open>Notifier value\<close>

text \<open>
  C2: in the AWAITING_NOTIFIER state (and equally when the notifier fires while a source
  subscription of a later attempt is still attached), a value from the notifier Stream
  makes exactly one call, \<^verbatim>\<open>source.subscribe(this)\<close>, on a subscriber whose source
  subscription is torn down but which is itself in operation, with downstream, hub,
  Stream and notifier subscription untouched; that call starts the next run of the
  source on the same subscriber, which is then in the ATTEMPT state.
\<close>

theorem notifier_value_resubscribes:
  "(AWAITING_NOTIFIER sid r i w \<or> (ATTEMPT w \<and> notifier_subscribed sid r i w)) \<longrightarrow>
     (\<exists>w'. step (InnerNext i v) w = Inr (w', [SourceSubscribe])
        \<and> \<not> sourceLive w' \<and> in_operation w' \<and> notifier_subscribed sid r i w'
        \<and> subjects w' = subjects w \<and> inners w' = inners w
        \<and> destination w' = destination w \<and> attempts w' = attempts w
        \<and> (\<exists>w''. step SourceSubscribe w' = Inr (w'', map source_call (source w (attempts w)))
              \<and> ATTEMPT w'' \<and> attempts w'' = Suc (attempts w)
              \<and> notifier_subscribed sid r i w''))"
  by (auto simp: retry_defs state_defs inner_next_def source_subscribe_def Let_def)

theorem notifier_value_resubscribes_witness:
  "AWAITING_NOTIFIER 0 (echo_stream 0) 0 awaiting_subscriber
   \<and> (\<exists>w'. step (InnerNext 0 ''go'') awaiting_subscriber = Inr (w', [SourceSubscribe])
        \<and> \<not> sourceLive w'
        \<and> (\<exists>w''. step SourceSubscribe w' = Inr (w'', [SourceComplete])
              \<and> ATTEMPT w'' \<and> attempts w'' = 2))"
proof -
  have h: "AWAITING_NOTIFIER 0 (echo_stream 0) 0 awaiting_subscriber"
    by (simp add: awaiting_subscriber_def cycle_state_def state_defs new_guard_def)
  have src: "map source_call (source awaiting_subscriber (attempts awaiting_subscriber))
      = [SourceComplete]"
    and att: "Suc (attempts awaiting_subscriber) = 2"
    by (simp_all add: awaiting_subscriber_def cycle_state_def failing_source_def)
  from notifier_value_resubscribes[where sid = 0 and r = "echo_stream 0" and i = 0
      and w = awaiting_subscriber and v = "''go''"] h
  show ?thesis unfolding src att by blast
qed

subsection \<open>Notifier completion and failure\<close>

lemma terminated_ignores:
  assumes "TERMINATED w"
  shows "step (SourceNext a) w = Inr (w, [])"
    and "step (SourceError e) w = Inr (w, [])"
    and "step SourceComplete w = Inr (w, [])"
  using assms
  by (simp_all add: TERMINATED_def Subscriber_next_def Subscriber_complete_def
      RetryWhenSubscriber_error_def)

lemma closed_inner_ignores:
  assumes "\<not> inner_open i w"
  shows "step (InnerNext i v) w = Inr (w, [])"
    and "step (InnerError i e) w = Inr (w, [])"
    and "step (InnerComplete i) w = Inr (w, [])"
  using assms by (simp_all add: inner_next_def inner_error_def inner_complete_def)

lemma closed_subject_ignores:
  assumes "sj_closed (subjects w ! sid)"
  shows "step (SubjectNext sid e) w = Inr (w, [])"
  using assms by (simp add: subject_next_def)

lemma notifier_complete_terminates:
  assumes "in_operation w" "notifier_subscribed sid r i w"
  shows "\<exists>w'. step (InnerComplete i) w = Inr (w', [])
          \<and> received (destination w') = received (destination w) @ [OnComplete]
          \<and> attempts w' = attempts w \<and> TERMINATED w' \<and> \<not> inner_open i w'
          \<and> sj_closed (subjects w' ! sid)"
  using assms by (auto simp: retry_defs state_defs guard_defs inner_complete_def Let_def)

lemma notifier_error_terminates:
  assumes "in_operation w" "notifier_subscribed sid r i w"
  shows "\<exists>w'. step (InnerError i e) w = Inr (w', [])
          \<and> received (destination w') = received (destination w) @ [OnError e]
          \<and> attempts w' = attempts w \<and> TERMINATED w' \<and> \<not> inner_open i w'
          \<and> sj_closed (subjects w' ! sid)"
  using assms by (auto simp: retry_defs state_defs guard_defs inner_error_def Let_def)

text \<open>
  C4: while the subscriber is in operation with its notifier subscribed, a completion
  of the notifier Stream delivers exactly a completion downstream, and a failure of the
  notifier Stream delivers exactly that failure. Either one makes no call (so no
  resubscription: the count of source subscriptions is unchanged) and leaves the
  subscriber TERMINATED, after which every notification of the source, every push into
  the hub and every notification of the notifier leaves the state as it is and makes no
  call.
\<close>

theorem notifier_terminal_forwarded:
  "in_operation w \<and> notifier_subscribed sid r i w \<longrightarrow>
     (\<exists>w'. step (InnerComplete i) w = Inr (w', [])
         \<and> received (destination w') = received (destination w) @ [OnComplete]
         \<and> attempts w' = attempts w \<and> TERMINATED w'
         \<and> (\<forall>a. step (SourceNext a) w' = Inr (w', []))
         \<and> (\<forall>x. step (SourceError x) w' = Inr (w', []))
         \<and> step SourceComplete w' = Inr (w', [])
         \<and> (\<forall>x. step (SubjectNext sid x) w' = Inr (w', []))
         \<and> (\<forall>x. step (InnerNext i x) w' = Inr (w', []))
         \<and> (\<forall>x. step (InnerError i x) w' = Inr (w', []))
         \<and> step (InnerComplete i) w' = Inr (w', []))
     \<and> (\<exists>w'. step (InnerError i e) w = Inr (w', [])
         \<and> received (destination w') = received (destination w) @ [OnError e]
         \<and> attempts w' = attempts w \<and> TERMINATED w'
         \<and> (\<forall>a. step (SourceNext a) w' = Inr (w', []))
         \<and> (\<forall>x. step (SourceError x) w' = Inr (w', []))
         \<and> step SourceComplete w' = Inr (w', [])
         \<and> (\<forall>x. step (SubjectNext sid x) w' = Inr (w', []))
         \<and> (\<forall>x. step (InnerNext i x) w' = Inr (w', []))
         \<and> (\<forall>x. step (InnerError i x) w' = Inr (w', []))
         \<and> step (InnerComplete i) w' = Inr (w', []))"
proof
  assume h: "in_operation w \<and> notifier_subscribed sid r i w"
  obtain w1 where w1: "step (InnerComplete i) w = Inr (w1, [])"
      "received (destination w1) = received (destination w) @ [OnComplete]"
      "attempts w1 = attempts w" "TERMINATED w1" "\<not> inner_open i w1"
      "sj_closed (subjects w1 ! sid)"
    using h notifier_complete_terminates[of w sid r i] by blast
  obtain w2 where w2: "step (InnerError i e) w = Inr (w2, [])"
      "received (destination w2) = received (destination w) @ [OnError e]"
      "attempts w2 = attempts w" "TERMINATED w2" "\<not> inner_open i w2"
      "sj_closed (subjects w2 ! sid)"
    using h notifier_error_terminates[of w sid r i e] by blast
  have c1: "(\<exists>w'. step (InnerComplete i) w = Inr (w', [])
         \<and> received (destination w') = received (destination w) @ [OnComplete]
         \<and> attempts w' = attempts w \<and> TERMINATED w'
         \<and> (\<forall>a. step (SourceNext a) w' = Inr (w', []))
         \<and> (\<forall>x. step (SourceError x) w' = Inr (w', []))
         \<and> step SourceComplete w' = Inr (w', [])
         \<and> (\<forall>x. step (SubjectNext sid x) w' = Inr (w', []))
         \<and> (\<forall>x. step (InnerNext i x) w' = Inr (w', []))
         \<and> (\<forall>x. step (InnerError i x) w' = Inr (w', []))
         \<and> step (InnerComplete i) w' = Inr (w', []))"
    using w1 terminated_ignores[OF w1(4)] closed_inner_ignores[OF w1(5)]
      closed_subject_ignores[OF w1(6)]
    by (intro exI[of _ w1]) simp
  have c2: "(\<exists>w'. step (InnerError i e) w = Inr (w', [])
         \<and> received (destination w') = received (destination w) @ [OnError e]
         \<and> attempts w' = attempts w \<and> TERMINATED w'
         \<and> (\<forall>a. step (SourceNext a) w' = Inr (w', []))
         \<and> (\<forall>x. step (SourceError x) w' = Inr (w', []))
         \<and> step SourceComplete w' = Inr (w', [])
         \<and> (\<forall>x. step (SubjectNext sid x) w' = Inr (w', []))
         \<and> (\<forall>x. step (InnerNext i x) w' = Inr (w', []))
         \<and> (\<forall>x. step (InnerError i x) w' = Inr (w', []))
         \<and> step (InnerComplete i) w' = Inr (w', []))"
    using w2 terminated_ignores[OF w2(4)] closed_inner_ignores[OF w2(5)]
      closed_subject_ignores[OF w2(6)]
    by (intro exI[of _ w2]) simp
  from c1 c2 show "(\<exists>w'. step (InnerComplete i) w = Inr (w', [])
         \<and> received (destination w') = received (destination w) @ [OnComplete]
         \<and> attempts w' = attempts w \<and> TERMINATED w'
         \<and> (\<forall>a. step (SourceNext a) w' = Inr (w', []))
         \<and> (\<forall>x. step (SourceError x) w' = Inr (w', []))
         \<and> step SourceComplete w' = Inr (w', [])
         \<and> (\<forall>x. step (SubjectNext sid x) w' = Inr (w', []))
         \<and> (\<forall>x. step (InnerNext i x) w' = Inr (w', []))
         \<and> (\<forall>x. step (InnerError i x) w' = Inr (w', []))
         \<and> step (InnerComplete i) w' = Inr (w', []))
     \<and> (\<exists>w'. step (InnerError i e) w = Inr (w', [])
         \<and> received (destination w') = received (destination w) @ [OnError e]
         \<and> attempts w' = attempts w \<and> TERMINATED w'
         \<and> (\<forall>a. step (SourceNext a) w' = Inr (w', []))
         \<and> (\<forall>x. step (SourceError x) w' = Inr (w', []))
         \<and> step SourceComplete w' = Inr (w', [])
         \<and> (\<forall>x. step (SubjectNext sid x) w' = Inr (w', []))
         \<and> (\<forall>x. step (InnerNext i x) w' = Inr (w', []))
         \<and> (\<forall>x. step (InnerError i x) w' = Inr (w', []))
         \<and> step (InnerComplete i) w' = Inr (w', []))"
    by (rule conjI)
qed

theorem notifier_terminal_forwarded_witness:
  "in_operation awaiting_subscriber
   \<and> notifier_subscribed 0 (echo_stream 0) 0 awaiting_subscriber
   \<and> (\<exists>w'. step (InnerComplete 0) awaiting_subscriber = Inr (w', [])
         \<and> received (destination w') = [OnComplete]
         \<and> attempts w' = 1 \<and> TERMINATED w')
   \<and> (\<exists>w'. step (InnerError 0 ''notifier failed'') awaiting_subscriber = Inr (w', [])
         \<and> received (destination w') = [OnError ''notifier failed'']
         \<and> attempts w' = 1 \<and> TERMINATED w')"
proof -
  have h: "in_operation awaiting_subscriber
      \<and> notifier_subscribed 0 (echo_stream 0) 0 awaiting_subscriber"
    by (simp add: awaiting_subscriber_def cycle_state_def state_defs new_guard_def)
  have before: "received (destination awaiting_subscriber) = []"
      "attempts awaiting_subscriber = 1"
    by (simp_all add: awaiting_subscriber_def cycle_state_def new_guard_def)
  from notifier_terminal_forwarded[where w = awaiting_subscriber and sid = 0
      and r = "echo_stream 0" and i = 0 and e = "''notifier failed''"] h
  show ?thesis unfolding before by auto
qed

subsection \<open>Errors thrown by user callbacks\<close>

text \<open>
  C6: when the predicate of the every operator throws on a value delivered to a
  subscriber that is not stopped, with downstream not stopped, downstream receives
  exactly one more notification, that failure, and is stopped; no value and no
  completion is delivered for the input. When the notifier function of the retry
  manager throws on a source failure (no notifier exists yet), the call returns
  normally, no exception escapes it, downstream receives exactly one more notification,
  the thrown failure, nothing is pushed and no resubscription is made.
\<close>

theorem callback_error_converted:
  "(\<not> ev_isStopped s \<and> \<not> stopped (ev_destination s)
      \<and> predicate s v (index s) (ev_source s) = Inl err \<longrightarrow>
        received (ev_destination (every_next v s)) = received (ev_destination s) @ [OnError err]
        \<and> stopped (ev_destination (every_next v s))
        \<and> index (every_next v s) = Suc (index s))
   \<and> (\<not> isStopped w \<and> \<not> stopped (destination w)
      \<and> errors w = None \<and> retries w = None \<and> retriesSubscription w = None
      \<and> notifier w (length (subjects w)) = Inl e \<longrightarrow>
        (\<exists>w'. step (SourceError err') w = Inr (w', [])
           \<and> received (destination w') = received (destination w) @ [OnError e]
           \<and> stopped (destination w') \<and> isStopped w' \<and> closed w'
           \<and> attempts w' = attempts w
           \<and> subjects w' = subjects w @ [\<lparr>sj_closed = False, sj_pushed = []\<rparr>]
           \<and> inners w' = inners w))"
  by (auto simp: every_defs retry_defs guard_defs Let_def split: option.splits)

theorem callback_error_converted_witness:
  "\<not> ev_isStopped (emit [1, 2] (new_EverySubscriber new_guard throws_on_3 ()))
   \<and> \<not> stopped (ev_destination (emit [1, 2] (new_EverySubscriber new_guard throws_on_3 ())))
   \<and> throws_on_3 3 2 () = Inl ''bad value''
   \<and> received (ev_destination (emit [1, 2, 3] (new_EverySubscriber new_guard throws_on_3 ())))
       = [OnError ''bad value'']
   \<and> \<not> isStopped throwing_subscriber \<and> \<not> stopped (destination throwing_subscriber)
   \<and> notifier throwing_subscriber 0 = Inl ''thrown by notifier''
   \<and> (\<exists>w'. step (SourceError ''boom'') throwing_subscriber = Inr (w', [])
          \<and> received (destination w') = [OnError ''thrown by notifier''])"
proof -
  let ?s = "emit [1, 2] (new_EverySubscriber new_guard throws_on_3 ())"
  have s: "?s = \<lparr>ev_isStopped = False, ev_closed = False, ev_destination = new_guard,
      index = 2, predicate = throws_on_3, ev_source = ()\<rparr>"
    by (simp add: every_defs throws_on_3_def)
  have hs: "\<not> ev_isStopped ?s \<and> \<not> stopped (ev_destination ?s)
      \<and> predicate ?s 3 (index ?s) (ev_source ?s) = Inl ''bad value''"
    unfolding s by (simp add: new_guard_def throws_on_3_def)
  have hw: "\<not> isStopped throwing_subscriber \<and> \<not> stopped (destination throwing_subscriber)
      \<and> errors throwing_subscriber = None \<and> retries throwing_subscriber = None
      \<and> retriesSubscription throwing_subscriber = None
      \<and> notifier throwing_subscriber (length (subjects throwing_subscriber))
          = Inl ''thrown by notifier''"
    by (simp add: throwing_subscriber_def new_RetryWhenSubscriber_def new_guard_def)
  have before: "received (ev_destination ?s) = []" "received (destination throwing_subscriber) = []"
    "length (subjects throwing_subscriber) = 0" "index ?s = 2"
    unfolding s by (simp_all add: throwing_subscriber_def new_RetryWhenSubscriber_def new_guard_def)
  have unfold_emit: "emit [1, 2, 3] (new_EverySubscriber new_guard throws_on_3 ()) = every_next 3 ?s"
    by simp
  from callback_error_converted[where s = ?s and v = 3 and err = "''bad value''"
      and w = throwing_subscriber and e = "''thrown by notifier''" and err' = "''boom''"] hs hw
  show ?thesis unfolding unfold_emit before by (auto simp: throws_on_3_def)
qed

subsection \<open>Stopped guards\<close>

lemma one_terminal_call: "one_terminal g \<Longrightarrow> one_terminal (guard_call n g)"
  by (cases n) (auto simp: one_terminal_def guard_defs)

lemma one_terminal_calls: "one_terminal g \<Longrightarrow> one_terminal (fold guard_call ns g)"
  by (induction ns arbitrary: g) (simp_all add: one_terminal_call)

lemma one_terminal_bound: "one_terminal g \<Longrightarrow> length (filter terminal (received g)) \<le> 1"
  by (simp add: one_terminal_def split: if_splits)

lemma unsubscribe_destination: "destination (unsubscribe w) = destination w"
  by (simp add: unsubscribe_def RetryWhenSubscriber_unsubscribe_def subject_unsubscribe_def
      subscription_unsubscribe_def Let_def split: option.splits)

lemma step_one_terminal:
  assumes "one_terminal (destination w)" "step c w = Inr (w', cs)"
  shows "one_terminal (destination w')"
proof (cases c)
  case (SourceNext v)
  with assms show ?thesis
    using one_terminal_call[of "destination w" "OnNext v"]
    by (auto simp: Subscriber_next_def destination_next_def)
next
  case (SourceError e)
  with assms show ?thesis
    using one_terminal_call[of "destination w" "OnError x" for x]
    by (auto simp: retry_defs Let_def split: if_splits option.splits sum.splits prod.splits)
next
  case SourceComplete
  with assms show ?thesis
    using one_terminal_call[of "destination w" "OnComplete"]
    by (auto simp: Subscriber_complete_def destination_complete_def unsubscribe_destination)
next
  case (SubjectNext sid e)
  with assms show ?thesis by (auto simp: subject_next_def Let_def split: if_splits)
next
  case (InnerNext i v)
  with assms show ?thesis
    by (auto simp: inner_next_def RetryWhenSubscriber_notifyNext_def unsubscribeAndRecycle_def
        unsubscribe_destination Let_def split: if_splits)
next
  case (InnerError i e)
  with assms show ?thesis
    using one_terminal_call[of "destination w" "OnError e"]
    by (auto simp: inner_error_def OuterSubscriber_notifyError_def destination_error_def
        subscription_unsubscribe_def unsubscribe_destination split: if_splits)
next
  case (InnerComplete i)
  with assms show ?thesis
    using one_terminal_call[of "destination w" "OnComplete"]
    by (auto simp: inner_complete_def OuterSubscriber_notifyComplete_def destination_complete_def
        subscription_unsubscribe_def unsubscribe_destination split: if_splits)
next
  case SourceSubscribe
  with assms show ?thesis by (auto simp: source_subscribe_def Let_def)
qed

lemma run_one_terminal:
  "run fuel pending (w, m) = Some (Inr (w', m')) \<Longrightarrow> one_terminal (destination w)
   \<Longrightarrow> one_terminal (destination w')"
proof (induction fuel pending "(w, m)" arbitrary: w m rule: run.induct)
  case (1 fuel w m)
  then show ?case by simp
next
  case (2 dc pending w m)
  then show ?case by simp
next
  case (3 fuel d c pending w m)
  then show ?case
    by (auto split: sum.splits prod.splits dest: step_one_terminal)
qed

text \<open>
  C7: a stopped guard ignores \<^verbatim>\<open>value\<close>, \<^verbatim>\<open>fail\<close> and \<^verbatim>\<open>complete\<close>: the call
  returns the state unchanged, makes no further call and raises nothing. This holds for
  the downstream guard, for the retry subscriber (whose \<^verbatim>\<open>error\<close> is the overriding
  method of the source), for the every subscriber and for a closed notifier
  subscription. Whatever sequence of calls a fresh guard receives, it delivers at most
  one terminal notification; and whatever cascade of calls runs on a retry subscriber,
  its downstream guard, having delivered at most one terminal notification before, has
  delivered at most one after.
\<close>

theorem stopped_guard_ignores:
  "(stopped g \<longrightarrow> guard_value a g = g \<and> guard_fail e g = g \<and> guard_complete g = g)
   \<and> (isStopped w \<longrightarrow> step (SourceNext b) w = Inr (w, [])
         \<and> step (SourceError e) w = Inr (w, []) \<and> step SourceComplete w = Inr (w, []))
   \<and> (ev_isStopped s \<longrightarrow> every_next c s = s \<and> every_error e s = s \<and> every_complete s = s)
   \<and> (\<not> inner_open i w \<longrightarrow> step (InnerNext i e) w = Inr (w, [])
         \<and> step (InnerError i e) w = Inr (w, []) \<and> step (InnerComplete i) w = Inr (w, []))
   \<and> length (filter terminal (received (fold guard_call ns (new_guard :: ('a, 'e) guard)))) \<le> 1
   \<and> (one_terminal (destination w) \<and> run fuel pending (w, m) = Some (Inr (w', m'))
        \<longrightarrow> length (filter terminal (received (destination w'))) \<le> 1)"
proof -
  have fresh: "one_terminal (new_guard :: ('a, 'e) guard)"
    by (simp add: one_terminal_def new_guard_def)
  have p1: "stopped g \<longrightarrow> guard_value a g = g \<and> guard_fail e g = g \<and> guard_complete g = g"
    by (simp add: guard_defs)
  have p2: "isStopped w \<longrightarrow> step (SourceNext b) w = Inr (w, [])
         \<and> step (SourceError e) w = Inr (w, []) \<and> step SourceComplete w = Inr (w, [])"
    by (simp add: Subscriber_next_def Subscriber_complete_def RetryWhenSubscriber_error_def)
  have p3: "ev_isStopped s \<longrightarrow> every_next c s = s \<and> every_error e s = s \<and> every_complete s = s"
    by (simp add: every_next_def every_error_def every_complete_def)
  have p4: "\<not> inner_open i w \<longrightarrow> step (InnerNext i e) w = Inr (w, [])
         \<and> step (InnerError i e) w = Inr (w, []) \<and> step (InnerComplete i) w = Inr (w, [])"
    by (simp add: inner_next_def inner_error_def inner_complete_def)
  have p5: "length (filter terminal (received (fold guard_call ns (new_guard :: ('a, 'e) guard)))) \<le> 1"
    using one_terminal_bound[OF one_terminal_calls[OF fresh]] .
  have p6: "one_terminal (destination w) \<and> run fuel pending (w, m) = Some (Inr (w', m'))
        \<longrightarrow> length (filter terminal (received (destination w'))) \<le> 1"
    using one_terminal_bound run_one_terminal by blast
  from p1 p2 p3 p4 p5 p6 show ?thesis by blast
qed

theorem stopped_guard_ignores_witness:
  "stopped (guard_complete (new_guard :: (int, string) guard))
   \<and> guard_value 1 (guard_complete (new_guard :: (int, string) guard)) = guard_complete new_guard
   \<and> isStopped (final_state 1 ''boom'' :: (int, string) retry_when_subscriber)
   \<and> step (SourceError ''late'') (final_state 1 ''boom'' :: (int, string) retry_when_subscriber)
       = Inr (final_state 1 ''boom'', [])
   \<and> ev_isStopped (subscribe_of [1, 2, 3] (every_less_than 10 :: (int, string, unit) every_subscriber))
   \<and> every_next 4 (subscribe_of [1, 2, 3] (every_less_than 10 :: (int, string, unit) every_subscriber))
       = subscribe_of [1, 2, 3] (every_less_than 10)
   \<and> \<not> inner_open 0 (final_state 1 ''boom'' :: (int, string) retry_when_subscriber)
   \<and> step (InnerNext 0 ''late'') (final_state 1 ''boom'' :: (int, string) retry_when_subscriber)
       = Inr (final_state 1 ''boom'', [])
   \<and> one_terminal (destination awaiting_subscriber)
   \<and> (\<exists>w'. run (Suc (Suc 0)) [(0, InnerComplete 0), (0, SourceError ''late'')]
              (awaiting_subscriber, 0) = Some (Inr (w', 0))
          \<and> length (filter terminal (received (destination w'))) \<le> 1)"
proof -
  let ?g = "guard_complete (new_guard :: (int, string) guard)"
  let ?w = "final_state 1 ''boom'' :: (int, string) retry_when_subscriber"
  let ?s = "subscribe_of [1, 2, 3] (every_less_than 10 :: (int, string, unit) every_subscriber)"
  have hg: "stopped ?g" by (simp add: guard_defs)
  have hw: "isStopped ?w" by (simp add: final_state_def)
  have hs: "ev_isStopped ?s" by (simp add: every_defs guard_defs)
  have hi: "\<not> inner_open 0 ?w" by (simp add: final_state_def inner_open_def)
  have ha: "one_terminal (destination awaiting_subscriber)"
    by (simp add: awaiting_subscriber_def cycle_state_def one_terminal_def new_guard_def)
  obtain w' where hr: "run (Suc (Suc 0)) [(0, InnerComplete 0), (0, SourceError ''late'')]
      (awaiting_subscriber, 0) = Some (Inr (w', 0))"
    by (simp add: awaiting_subscriber_def cycle_state_def inner_complete_def inner_open_def
        retry_defs guard_defs)
  note inst = stopped_guard_ignores[where g = ?g and a = 1 and w = ?w and s = ?s and c = 4
      and i = 0 and e = "''late''" and b = 0 and ns = "[]" and fuel = 0 and pending = "[]"
      and m = 0 and w' = ?w and m' = 0]
  note inst_run = stopped_guard_ignores[where g = ?g and a = 1 and s = ?s and c = 4
      and i = 0 and e = "''late''" and b = 0 and ns = "[]"
      and w = awaiting_subscriber and fuel = "Suc (Suc 0)"
      and pending = "[(0, InnerComplete 0), (0, SourceError ''late'')]" and m = 0
      and w' = w' and m' = 0]
  have c: "length (filter terminal (received (destination w'))) \<le> 1"
    using inst_run ha hr by blast
  have ex: "\<exists>w'. run (Suc (Suc 0)) [(0, InnerComplete 0), (0, SourceError ''late'')]
              (awaiting_subscriber, 0) = Some (Inr (w', 0))
          \<and> length (filter terminal (received (destination w'))) \<le> 1"
    using hr c by blast
  show ?thesis using inst hg hw hs hi ha ex by blast
qed

subsection \<open>The notifier machinery across cycles\<close>

text \<open>
  C10: \<^verbatim>\<open>notifyNext\<close> leaves the hub, the notifier Stream and the notifier
  subscription as they are: when the notifier is subscribed before the call it is
  subscribed after it, with the same hub, Stream and subscription, neither store
  changed, and the \<^verbatim>\<open>_unsubscribe\<close> property back to what it was. \<^verbatim>\<open>_unsubscribe\<close>
  sets all three fields to null and closes the hub and the subscription; a plain
  unsubscribe of an open subscriber that holds the method runs it. Recycling without
  taking the method away would release the three as well, which is why \<^verbatim>\<open>notifyNext\<close>
  removes it for the time of the recycling.
\<close>

theorem notifier_machinery_kept:
  "(notifier_subscribed sid r i w \<longrightarrow>
      (\<exists>w'. RetryWhenSubscriber_notifyNext v w = (w', [SourceSubscribe])
         \<and> notifier_subscribed sid r i w'
         \<and> subjects w' = subjects w \<and> inners w' = inners w
         \<and> unsubscribe_hook w' = unsubscribe_hook w))
   \<and> errors (RetryWhenSubscriber_unsubscribe w) = None
   \<and> retries (RetryWhenSubscriber_unsubscribe w) = None
   \<and> retriesSubscription (RetryWhenSubscriber_unsubscribe w) = None
   \<and> (notifier_subscribed sid r i w \<longrightarrow>
        sj_closed (subjects (RetryWhenSubscriber_unsubscribe w) ! sid)
        \<and> in_closed (inners (RetryWhenSubscriber_unsubscribe w) ! i))
   \<and> (notifier_subscribed sid r i w \<and> \<not> closed w \<and> unsubscribe_hook w \<longrightarrow>
        errors (unsubscribe w) = None \<and> retries (unsubscribe w) = None
        \<and> retriesSubscription (unsubscribe w) = None
        \<and> sj_closed (subjects (unsubscribe w) ! sid) \<and> in_closed (inners (unsubscribe w) ! i)
        \<and> errors (unsubscribeAndRecycle w) = None
        \<and> sj_closed (subjects (unsubscribeAndRecycle w) ! sid))"
  by (auto simp: retry_defs state_defs Let_def split: option.splits)

theorem notifier_machinery_kept_witness:
  "notifier_subscribed 0 (echo_stream 0) 0 awaiting_subscriber
   \<and> \<not> closed awaiting_subscriber \<and> unsubscribe_hook awaiting_subscriber
   \<and> (\<exists>w'. RetryWhenSubscriber_notifyNext ''go'' awaiting_subscriber = (w', [SourceSubscribe])
         \<and> notifier_subscribed 0 (echo_stream 0) 0 w'
         \<and> subjects w' = [\<lparr>sj_closed = False, sj_pushed = [''boom'']\<rparr>]
         \<and> unsubscribe_hook w')
   \<and> errors (unsubscribe awaiting_subscriber) = None
   \<and> retries (unsubscribe awaiting_subscriber) = None
   \<and> retriesSubscription (unsubscribe awaiting_subscriber) = None
   \<and> sj_closed (subjects (unsubscribe awaiting_subscriber) ! 0)
   \<and> in_closed (inners (unsubscribe awaiting_subscriber) ! 0)"
proof -
  have h: "notifier_subscribed 0 (echo_stream 0) 0 awaiting_subscriber
      \<and> \<not> closed awaiting_subscriber \<and> unsubscribe_hook awaiting_subscriber"
    by (simp add: awaiting_subscriber_def cycle_state_def state_defs)
  have before: "subjects awaiting_subscriber = [\<lparr>sj_closed = False, sj_pushed = [''boom'']\<rparr>]"
    by (simp add: awaiting_subscriber_def cycle_state_def)
  from notifier_machinery_kept[where sid = 0 and r = "echo_stream 0" and i = 0
      and w = awaiting_subscriber and v = "''go''"] h
  show ?thesis unfolding before by auto
qed

subsection \<open>Consecutive synchronous retry cycles\<close>

lemma run_step:
  "step c w = Inr (w', cs) \<Longrightarrow>
   run (Suc f) ((d, c) # pending) (w, m) = run f (map (Pair (Suc d)) cs @ pending) (w', max m d)"
  by simp

lemma step_subscribe_failing:
  "k < n \<Longrightarrow> step SourceSubscribe (cycle_state n e k k False)
     = Inr (cycle_state n e k (Suc k) True, [SourceError e])"
  by (simp add: source_subscribe_def cycle_state_def failing_source_def)

lemma step_error_reuse:
  "step (SourceError e) (cycle_state n e k a True)
     = Inr (cycle_state n e k a False, [SubjectNext 0 e])"
  by (simp add: cycle_state_def retry_defs Let_def)

lemma step_push:
  "step (SubjectNext 0 e) (cycle_state n e k a False)
     = Inr (cycle_state n e (Suc k) a False, [InnerNext 0 e])"
  by (simp add: cycle_state_def subject_next_def inner_open_def echo_stream_def
      replicate_append_same)

lemma step_notify:
  "step (InnerNext 0 e) (cycle_state n e k a False)
     = Inr (cycle_state n e k a False, [SourceSubscribe])"
  by (simp add: cycle_state_def inner_next_def inner_open_def retry_defs)

lemma step_subscribe_first:
  "0 < n \<Longrightarrow>
   step SourceSubscribe (new_RetryWhenSubscriber new_guard echo_notifier (failing_source n e))
     = Inr ((new_RetryWhenSubscriber new_guard echo_notifier (failing_source n e))
              \<lparr>attempts := Suc 0, sourceLive := True\<rparr>, [SourceError e])"
  by (simp add: source_subscribe_def new_RetryWhenSubscriber_def failing_source_def)

lemma step_error_fresh:
  "step (SourceError e)
     ((new_RetryWhenSubscriber new_guard echo_notifier (failing_source n e))
        \<lparr>attempts := Suc 0, sourceLive := True\<rparr>)
     = Inr (cycle_state n e 0 (Suc 0) False, [SubjectNext 0 e])"
  by (simp add: cycle_state_def new_RetryWhenSubscriber_def retry_defs echo_notifier_def)

lemma step_subscribe_last:
  "step SourceSubscribe (cycle_state n e n n False)
     = Inr (cycle_state n e n (Suc n) True, [SourceComplete])"
  by (simp add: source_subscribe_def cycle_state_def failing_source_def)

lemma step_complete_last:
  "0 < n \<Longrightarrow> step SourceComplete (cycle_state n e n (Suc n) True) = Inr (final_state n e, [])"
  by (simp add: cycle_state_def final_state_def retry_defs guard_defs)

lemma max_chain4:
  "max (max (max (max m d) (Suc d)) (Suc (Suc d))) (Suc (Suc (Suc d))) = max m (d + 3)"
  by (simp add: max_def)

lemma max_chain2: "max (max m d) (Suc d) = max m (d + 1)"
  by (simp add: max_def)

lemma one_cycle:
  assumes "k < n"
  shows "run (Suc (Suc (Suc (Suc f)))) ((d, SourceSubscribe) # pending)
           (cycle_state n e k k False, m)
       = run f ((d + 4, SourceSubscribe) # pending)
           (cycle_state n e (Suc k) (Suc k) False, max m (d + 3))"
proof -
  have d4: "Suc (Suc (Suc (Suc d))) = d + 4" by simp
  show ?thesis
    using assms
    by (simp add: run_step[OF step_subscribe_failing] run_step[OF step_error_reuse]
        run_step[OF step_push] run_step[OF step_notify] max_chain4 d4
        del: run.simps step.simps)
qed

lemma first_cycle:
  assumes "0 < n"
  shows "run (Suc (Suc (Suc (Suc f)))) ((d, SourceSubscribe) # pending)
           (new_RetryWhenSubscriber new_guard echo_notifier (failing_source n e), m)
       = run f ((d + 4, SourceSubscribe) # pending)
           (cycle_state n e (Suc 0) (Suc 0) False, max m (d + 3))"
proof -
  have d4: "Suc (Suc (Suc (Suc d))) = d + 4" by simp
  show ?thesis
    using assms
    by (simp add: run_step[OF step_subscribe_first] run_step[OF step_error_fresh]
        run_step[OF step_push] run_step[OF step_notify] max_chain4 d4
        del: run.simps step.simps)
qed

lemma last_cycle:
  assumes "0 < n"
  shows "run (Suc (Suc f)) ((d, SourceSubscribe) # pending) (cycle_state n e n n False, m)
       = run f pending (final_state n e, max m (d + 1))"
  using assms
  by (simp add: run_step[OF step_subscribe_last] run_step[OF step_complete_last] max_chain2
      del: run.simps step.simps)

lemma remaining_cycles:
  assumes "0 < n"
  shows "k + j = n \<Longrightarrow>
     run (4 * j + 2 + f) ((d, SourceSubscribe) # pending) (cycle_state n e k k False, m)
       = run f pending (final_state n e, max m (d + 4 * j + 1))"
proof (induction j arbitrary: k d m)
  case 0
  then have "k = n" by simp
  then show ?case using last_cycle[OF assms, of f d pending e m] by simp
next
  case (Suc j)
  then have kn: "k < n" and kj: "Suc k + j = n" by simp_all
  have fuel: "4 * Suc j + 2 + f = Suc (Suc (Suc (Suc (4 * j + 2 + f))))" by simp
  show ?case
    unfolding fuel one_cycle[OF kn]
    using Suc.IH[OF kj, of "d + 4" "max m (d + 3)"]
    by (simp add: max.assoc)
qed

lemma no_cycle:
  "run (Suc (Suc f)) [(0, SourceSubscribe)]
     (new_RetryWhenSubscriber new_guard echo_notifier (failing_source 0 e), 0)
   = Some (Inr (final_state 0 e, Suc 0))"
  by (simp add: source_subscribe_def new_RetryWhenSubscriber_def failing_source_def
      final_state_def retry_defs guard_defs)

lemma all_cycles:
  "retryWhen_subscribe (4 * n + 2 + f) echo_notifier (failing_source n e)
     = Some (Inr (final_state n e, 4 * n + 1))"
proof (cases n)
  case 0
  then show ?thesis using no_cycle[of f e] by (simp add: retryWhen_subscribe_def)
next
  case (Suc j)
  then have pos: "0 < n" by simp
  have fuel: "4 * n + 2 + f = Suc (Suc (Suc (Suc (4 * j + 2 + f))))" using Suc by simp
  have rest: "run (4 * j + 2 + f) [(0 + 4, SourceSubscribe)]
      (cycle_state n e (Suc 0) (Suc 0) False, max 0 (0 + 3))
      = run f [] (final_state n e, max (max 0 (0 + 3)) (0 + 4 + 4 * j + 1))"
    using remaining_cycles[OF pos, of "Suc 0" j f "0 + 4" "[]" e "max 0 (0 + 3)"] Suc by simp
  have depth: "max (max 0 (0 + 3)) (0 + 4 + 4 * j + 1) = 4 * n + 1" using Suc by simp
  show ?thesis
    unfolding retryWhen_subscribe_def fuel first_cycle[OF pos] rest depth by simp
qed

lemma resubscription_depth_eq: "resubscription_depth n = 4 * n + 1"
proof -
  have "retryWhen_subscribe (4 * n + 2) echo_notifier
          (failing_source n () :: nat \<Rightarrow> (unit, unit) notification list)
        = Some (Inr (final_state n (), 4 * n + 1))"
    using all_cycles[of n 0 "()"] by simp
  then show ?thesis by (simp add: resubscription_depth_def)
qed

text \<open>
  C3, as amended: the resubscription of the source is a plain method call,
  \<^verbatim>\<open>this.source.subscribe(this)\<close>, made inside \<^verbatim>\<open>notifyNext\<close>: whatever the state,
  the one call \<^verbatim>\<open>notifyNext\<close> makes is that call, from within its own frame, and no
  queue takes part. When the source fails within the subscribe call and the notifier
  answers at once, each retry cycle therefore runs inside the frames of the one before:
  \<open>n\<close> consecutive cycles take the resubscription path to depth \<open>4 n + 1\<close>, which
  grows with \<open>n\<close>.
\<close>

theorem resubscription_nests:
  "snd (RetryWhenSubscriber_notifyNext v (w :: ('a, 'e) retry_when_subscriber))
       = [SourceSubscribe]
   \<and> resubscription_depth n = 4 * n + 1"
  using resubscription_depth_eq[of n]
  by (simp add: RetryWhenSubscriber_notifyNext_def Let_def)

text \<open>
  The claim as first stated bounds the depth of the resubscription path by a constant,
  whatever the number of consecutive synchronous cycles. No such constant exists.
\<close>

theorem resubscription_nests_counterexample:
  "\<not> (\<exists>bound. \<forall>n. resubscription_depth n \<le> bound)"
proof
  assume "\<exists>bound. \<forall>n. resubscription_depth n \<le> bound"
  then obtain bound where b: "\<forall>n. resubscription_depth n \<le> bound" by blast
  then have "resubscription_depth bound \<le> bound" by blast
  then show False by (simp add: resubscription_depth_eq)
qed

end
